theory Spec2Isabelle
  imports Complex_Main
begin

section \<open>PARSEC airfoil parameterisation (parsec.py)\<close>

text \<open>
  Python floats (IEEE doubles) are idealised: a finite float is a real number and the
  operations on finite values are exact. The special values that numpy produces instead
  of raising (\<open>inf\<close>, \<open>-inf\<close>, \<open>nan\<close>) are kept as constructors of \<open>npfloat\<close>, so that
  the behaviour of fractional powers at bases \<open>\<le> 0\<close> is part of the model. Rounding,
  overflow and the sign of zero are not modelled.
\<close>

subsection \<open>Exceptions and float64 values\<close>

text \<open>
  \<open>ValueError\<close>: numpy's shape mismatch on assignment, and \<open>math.sqrt\<close> of a negative
  number. \<open>LinAlgError\<close>: \<open>np.linalg.solve\<close> on a singular or non-square matrix.
  \<open>AttributeError\<close>: reading an attribute that was never assigned.
  \<open>NonFinite\<close> is not a Python exception: it marks that \<open>inf\<close> or \<open>nan\<close> was handed
  to the linear solver, whose floating-point result is outside this model.
\<close>

datatype error = ValueError | LinAlgError | AttributeError | NonFinite

datatype npfloat = Fin real | PInf | NInf | NaN

definition is_integer :: "real \<Rightarrow> bool" where
  "is_integer e = (e = of_int \<lfloor>e\<rfloor>)"

definition odd_integer :: "real \<Rightarrow> bool" where
  "odd_integer e = (is_integer e \<and> odd \<lfloor>e\<rfloor>)"

text \<open>\<open>x ** e\<close> on a float64 base with a finite exponent (C99 \<open>pow\<close>): no exception,
  \<open>nan\<close> for a negative base with a non-integer exponent, \<open>inf\<close> for zero to a
  negative power.\<close>

fun np_power :: "npfloat \<Rightarrow> real \<Rightarrow> npfloat" where
  "np_power (Fin x) e =
     (if e = 0 then Fin 1
      else if 0 < x then Fin (x powr e)
      else if x = 0 then (if 0 < e then Fin 0 else PInf)
      else if is_integer e then Fin (if odd_integer e then - ((- x) powr e) else (- x) powr e)
      else NaN)"
| "np_power PInf e = (if e = 0 then Fin 1 else if 0 < e then PInf else Fin 0)"
| "np_power NInf e =
     (if e = 0 then Fin 1
      else if 0 < e then (if odd_integer e then NInf else PInf)
      else Fin 0)"
| "np_power NaN e = (if e = 0 then Fin 1 else NaN)"

text \<open>\<open>c * v\<close> for a finite scalar \<open>c\<close>.\<close>

fun np_mul :: "real \<Rightarrow> npfloat \<Rightarrow> npfloat" where
  "np_mul c (Fin v) = Fin (c * v)"
| "np_mul c PInf = (if 0 < c then PInf else if c < 0 then NInf else NaN)"
| "np_mul c NInf = (if 0 < c then NInf else if c < 0 then PInf else NaN)"
| "np_mul c NaN = NaN"

fun np_add :: "npfloat \<Rightarrow> npfloat \<Rightarrow> npfloat" where
  "np_add (Fin a) (Fin b) = Fin (a + b)"
| "np_add NaN v = NaN"
| "np_add v NaN = NaN"
| "np_add PInf NInf = NaN"
| "np_add NInf PInf = NaN"
| "np_add PInf v = PInf"
| "np_add v PInf = PInf"
| "np_add NInf v = NInf"
| "np_add v NInf = NInf"

subsection \<open>class Parameters\<close>

record Parameters =
  r_le_up :: real
  X_up :: real
  Z_up :: real
  Z_XX_up :: real
  r_le_lo :: real
  X_lo :: real
  Z_lo :: real
  Z_XX_lo :: real
  Z_te :: real
  dZ_te :: real
  alpha_te :: real
  beta_te :: real

definition default_param_vector :: "real list" where
  "default_param_vector =
     [0.1155, 0.7695, 0.1391, 0.2788, 0.1244, 0.1516, 0.7519, 0.3076, 0.5116, 0, 0.2629, 0.7630]"

definition genome_slots :: "nat list" where
  "genome_slots = [0, 1, 2, 3, 4, 5, 6, 7, 10, 11]"

definition r_min :: "real list" where
  "r_min = [0.0037, 0.1500, 0.0440, -1.0000, 0.0037, 0.3000, -0.1200, -1.5000, -0.0100, 0.0020,
            -10.0000, -10.0000]"

definition r_max :: "real list" where
  "r_max = [0.0500, 0.5175, 0.1588, 0.3000, 0.0500, 0.6000, -0.0400, -0.3000, 0.0100, 0.0026,
            10.0000, 20.0000]"

text \<open>numpy broadcasts the right-hand side of \<open>a[idx] = v\<close> to the shape of \<open>a[idx]\<close>:
  a one-element \<open>v\<close> fills every indexed slot, any other length mismatch raises
  \<open>ValueError\<close>.\<close>

definition broadcast_to :: "nat \<Rightarrow> real list \<Rightarrow> error + real list" where
  "broadcast_to n v =
     (if length v = n then Inr v
      else if length v = 1 then Inr (replicate n (hd v))
      else Inl ValueError)"

definition assign_at :: "real list \<Rightarrow> nat list \<Rightarrow> real list \<Rightarrow> real list" where
  "assign_at a idx v = foldl (\<lambda>acc (i, x). acc[i := x]) a (zip idx v)"

definition param_vector_of :: "real list option \<Rightarrow> error + real list" where
  "param_vector_of genome =
     (case genome of
        None \<Rightarrow> Inr default_param_vector
      | Some g \<Rightarrow>
          (case broadcast_to (length genome_slots) g of
             Inl e \<Rightarrow> Inl e
           | Inr v \<Rightarrow> Inr (assign_at default_param_vector genome_slots v)))"

definition scaled :: "real list \<Rightarrow> real list" where
  "scaled param_vector =
     (let spread = map2 (-) r_max r_min
      in map2 (+) (map2 (*) param_vector spread) r_min)"

definition radians :: "real \<Rightarrow> real" where
  "radians d = d * pi / 180"

definition Parameters_init :: "real list option \<Rightarrow> error + Parameters" where
  "Parameters_init genome =
     (case param_vector_of genome of
        Inl e \<Rightarrow> Inl e
      | Inr param_vector \<Rightarrow>
          (let p = scaled param_vector
           in Inr \<lparr> r_le_up = p ! 0, X_up = p ! 1, Z_up = p ! 2, Z_XX_up = p ! 3,
                    r_le_lo = p ! 4, X_lo = p ! 5, Z_lo = p ! 6, Z_XX_lo = - (p ! 7),
                    Z_te = p ! 8, dZ_te = p ! 9,
                    alpha_te = radians (p ! 10), beta_te = radians (p ! 11) \<rparr>))"

subsection \<open>class Coefficients\<close>

text \<open>\<open>_prepare_linsys_Amat\<close>. Its argument is \<open>X_up\<close> or \<open>X_lo\<close>, an entry of the numpy
  array \<open>p\<close> and so a float64: \<open>**\<close> is numpy's power, which returns \<open>nan\<close> or \<open>inf\<close>
  with a warning where Python's own float power would raise or turn complex.\<close>

definition prepare_linsys_Amat :: "real \<Rightarrow> npfloat list list" where
  "prepare_linsys_Amat X =
     (let P = np_power (Fin X) in
      [[Fin 1.0, Fin 1.0, Fin 1.0, Fin 1.0, Fin 1.0, Fin 1.0],
       [P 0.5, P 1.5, P 2.5, P 3.5, P 4.5, P 5.5],
       [Fin 0.5, Fin 1.5, Fin 2.5, Fin 3.5, Fin 4.5, Fin 5.5],
       [np_mul 0.5 (P (-0.5)), np_mul 1.5 (P 0.5), np_mul 2.5 (P 1.5),
        np_mul 3.5 (P 2.5), np_mul 4.5 (P 3.5), np_mul 5.5 (P 4.5)],
       [np_mul (-0.25) (P (-1.5)), np_mul 0.75 (P (-0.5)), np_mul 3.75 (P 0.5),
        np_mul 8.75 (P 1.5), np_mul 13.25 (P 2.5), np_mul 24.75 (P 3.5)],
       [Fin 1.0, Fin 0.0, Fin 0.0, Fin 0.0, Fin 0.0, Fin 0.0]])"

text \<open>\<open>math.sqrt\<close> raises \<open>ValueError\<close> (math domain error) below zero. \<open>math.tan\<close> is
  HOL's \<open>tan\<close>, which is total.\<close>

definition math_sqrt :: "real \<Rightarrow> error + real" where
  "math_sqrt x = (if x < 0 then Inl ValueError else Inr (sqrt x))"

text \<open>\<open>np.linalg.solve\<close> in exact arithmetic: elimination on the augmented rows, one
  unknown per round. A round takes the first row whose leading entry is not zero as the
  pivot row; without one the matrix is singular.\<close>

definition dot :: "real list \<Rightarrow> real list \<Rightarrow> real" where
  "dot r y = sum_list (map2 (*) r y)"

definition mat_vec :: "real list list \<Rightarrow> real list \<Rightarrow> real list" where
  "mat_vec A y = map (\<lambda>r. dot r y) A"

fun pivot :: "(real list \<times> real) list \<Rightarrow>
    ((real \<times> real list \<times> real) \<times> (real list \<times> real) list) option" where
  "pivot [] = None"
| "pivot (([], b) # es) = None"
| "pivot ((a # as, b) # es) =
     (if a \<noteq> 0 then Some ((a, as, b), es)
      else (case pivot es of
              None \<Rightarrow> None
            | Some (p, rest) \<Rightarrow> Some (p, (a # as, b) # rest)))"

definition eliminate :: "real \<times> real list \<times> real \<Rightarrow> real list \<times> real \<Rightarrow> real list \<times> real" where
  "eliminate p row =
     (case p of (a, as, b) \<Rightarrow>
        (case row of (r, d) \<Rightarrow>
           (let m = hd r / a
            in (map2 (\<lambda>u v. u - m * v) (tl r) as, d - m * b))))"

fun gauss :: "nat \<Rightarrow> (real list \<times> real) list \<Rightarrow> real list option" where
  "gauss 0 es = Some []"
| "gauss (Suc n) es =
     (case pivot es of
        None \<Rightarrow> None
      | Some ((a, as, b), rest) \<Rightarrow>
          (case gauss n (map (eliminate (a, as, b)) rest) of
             None \<Rightarrow> None
           | Some ys \<Rightarrow> Some ((b - dot as ys) / a # ys)))"

fun the_fin :: "npfloat \<Rightarrow> real option" where
  "the_fin (Fin v) = Some v"
| "the_fin v = None"

definition finite_matrix :: "npfloat list list \<Rightarrow> real list list option" where
  "finite_matrix A = those (map (\<lambda>r. those (map the_fin r)) A)"

definition square :: "'a list list \<Rightarrow> bool" where
  "square A = list_all (\<lambda>r. length r = length A) A"

definition solve :: "npfloat list list \<Rightarrow> real list \<Rightarrow> error + real list" where
  "solve A b =
     (if \<not> square A \<or> length b \<noteq> length A then Inl LinAlgError
      else (case finite_matrix A of
              None \<Rightarrow> Inl NonFinite
            | Some M \<Rightarrow>
                (case gauss (length M) (zip M b) of
                   None \<Rightarrow> Inl LinAlgError
                 | Some y \<Rightarrow> Inr y)))"

definition Bvec_up :: "Parameters \<Rightarrow> real \<Rightarrow> real list" where
  "Bvec_up p s =
     [Z_te p + dZ_te p / 2, Z_up p, tan (alpha_te p - beta_te p / 2), 0.0, Z_XX_up p, s]"

definition Bvec_lo :: "Parameters \<Rightarrow> real \<Rightarrow> real list" where
  "Bvec_lo p s =
     [- Z_te p + dZ_te p / 2, - Z_lo p, tan (alpha_te p + beta_te p / 2), 0.0, - Z_XX_lo p, s]"

definition calc_a_up :: "Parameters \<Rightarrow> error + real list" where
  "calc_a_up p =
     (let Amat = prepare_linsys_Amat (X_up p)
      in (case math_sqrt (2 * r_le_up p) of
            Inl e \<Rightarrow> Inl e
          | Inr s \<Rightarrow> solve Amat (Bvec_up p s)))"

definition calc_a_lo :: "Parameters \<Rightarrow> error + real list" where
  "calc_a_lo p =
     (let Amat = prepare_linsys_Amat (X_lo p)
      in (case math_sqrt (2 * r_le_lo p) of
            Inl e \<Rightarrow> Inl e
          | Inr s \<Rightarrow>
              (case solve Amat (Bvec_lo p s) of
                 Inl e \<Rightarrow> Inl e
               | Inr y \<Rightarrow> Inr (map uminus y))))"

record Coefficients =
  a_up :: "real list"
  a_lo :: "real list"

definition Coefficients_init :: "Parameters \<Rightarrow> error + Coefficients" where
  "Coefficients_init p =
     (case calc_a_up p of
        Inl e \<Rightarrow> Inl e
      | Inr u \<Rightarrow>
          (case calc_a_lo p of
             Inl e \<Rightarrow> Inl e
           | Inr l \<Rightarrow> Inr \<lparr> a_up = u, a_lo = l \<rparr>))"

subsection \<open>The reference curve\<close>

definition naca0012_X :: "real list" where
  "naca0012_X = [
    0.99975, 0.99901, 0.99778, 0.99606, 0.99384, 0.99114, 0.98796, 0.98429,
    0.98015, 0.97553, 0.97044, 0.96489, 0.95888, 0.95241, 0.9455, 0.93815,
    0.93037, 0.92216, 0.91354, 0.90451, 0.89508, 0.88526, 0.87506, 0.86448,
    0.85355, 0.84227, 0.83066, 0.81871, 0.80645, 0.79389, 0.78104, 0.76791,
    0.75452, 0.74088, 0.72699, 0.71289, 0.69857, 0.68406, 0.66937, 0.65451,
    0.6395, 0.62435, 0.60907, 0.59369, 0.57822, 0.56267, 0.54705, 0.53139,
    0.5157, 0.5, 0.48429, 0.4686, 0.45295, 0.43733, 0.42178, 0.40631,
    0.39093, 0.37566, 0.3605, 0.34549, 0.33063, 0.31594, 0.30143, 0.28711,
    0.273, 0.25912, 0.24548, 0.23209, 0.21896, 0.20611, 0.19355, 0.18129,
    0.16934, 0.15773, 0.14645, 0.13552, 0.12494, 0.11474, 0.10492, 0.095492,
    0.08646, 0.077836, 0.069629, 0.061847, 0.054497, 0.047586, 0.041123, 0.035112,
    0.02956, 0.024472, 0.019853, 0.015708, 0.012042, 0.008856, 0.006156, 0.003943,
    0.002219, 0.000987, 0.000247, 0.0, 0.000247, 0.000987, 0.002219, 0.003943,
    0.006156, 0.008856, 0.012042, 0.015708, 0.019853, 0.024472, 0.02956, 0.035112,
    0.041123, 0.047586, 0.054497, 0.061847, 0.069629, 0.077836, 0.08646, 0.095492,
    0.10492, 0.11474, 0.12494, 0.13552, 0.14645, 0.15773, 0.16934, 0.18129,
    0.19355, 0.20611, 0.21896, 0.23209, 0.24548, 0.25912, 0.273, 0.28711,
    0.30143, 0.31594, 0.33063, 0.34549, 0.3605, 0.37566, 0.39093, 0.40631,
    0.42178, 0.43733, 0.45295, 0.4686, 0.48429, 0.5, 0.5157, 0.53139,
    0.54705, 0.56267, 0.57822, 0.59369, 0.60907, 0.62435, 0.6395, 0.65451,
    0.66937, 0.68406, 0.69857, 0.71289, 0.72699, 0.74088, 0.75452, 0.76791,
    0.78104, 0.79389, 0.80645, 0.81871, 0.83066, 0.84227, 0.85355, 0.86448,
    0.87506, 0.88526, 0.89508, 0.90451, 0.91354, 0.92216, 0.93037, 0.93815,
    0.9455, 0.95241, 0.95888, 0.96489, 0.97044, 0.97553, 0.98015, 0.98429,
    0.98796, 0.99114, 0.99384, 0.99606, 0.99778, 0.99901, 0.99975, 1.0]"

definition naca0012_Z :: "real list" where
  "naca0012_Z = [
    0.000036, 0.000143, 0.000322, 0.000572, 0.000891, 0.00128, 0.001737, 0.00226,
    0.002849, 0.003501, 0.004216, 0.00499, 0.005822, 0.00671, 0.007651, 0.008643,
    0.009684, 0.01077, 0.0119, 0.013071, 0.01428, 0.015523, 0.0168, 0.018106,
    0.019438, 0.020795, 0.022173, 0.023569, 0.024981, 0.026405, 0.027838, 0.029279,
    0.030723, 0.032168, 0.03361, 0.035048, 0.036478, 0.037896, 0.0393, 0.040686,
    0.042052, 0.043394, 0.044708, 0.045992, 0.047242, 0.048455, 0.049626, 0.050754,
    0.051833, 0.052862, 0.053835, 0.054749, 0.055602, 0.05639, 0.057108, 0.057755,
    0.058326, 0.058819, 0.05923, 0.059557, 0.059797, 0.059947, 0.060006, 0.059971,
    0.059841, 0.059614, 0.059288, 0.058863, 0.058338, 0.057712, 0.056986, 0.056159,
    0.055232, 0.054206, 0.053083, 0.051862, 0.050546, 0.049138, 0.047638, 0.046049,
    0.044374, 0.042615, 0.040776, 0.038859, 0.036867, 0.034803, 0.032671, 0.030473,
    0.028213, 0.025893, 0.023517, 0.021088, 0.018607, 0.016078, 0.013503, 0.010884,
    0.008223, 0.005521, 0.002779, 0.0, -0.002779, -0.005521, -0.008223, -0.010884,
    -0.013503, -0.016078, -0.018607, -0.021088, -0.023517, -0.025893, -0.028213, -0.030473,
    -0.032671, -0.034803, -0.036867, -0.038859, -0.040776, -0.042615, -0.044374, -0.046049,
    -0.047638, -0.049138, -0.050546, -0.051862, -0.053083, -0.054206, -0.055232, -0.056159,
    -0.056986, -0.057712, -0.058338, -0.058863, -0.059288, -0.059614, -0.059841, -0.059971,
    -0.060006, -0.059947, -0.059797, -0.059557, -0.05923, -0.058819, -0.058326, -0.057755,
    -0.057108, -0.05639, -0.055602, -0.054749, -0.053835, -0.052862, -0.051833, -0.050754,
    -0.049626, -0.048455, -0.047242, -0.045992, -0.044708, -0.043394, -0.042052, -0.040686,
    -0.0393, -0.037896, -0.036478, -0.035048, -0.03361, -0.032168, -0.030723, -0.029279,
    -0.027838, -0.026405, -0.024981, -0.023569, -0.022173, -0.020795, -0.019438, -0.018106,
    -0.0168, -0.015523, -0.01428, -0.013071, -0.0119, -0.01077, -0.009684, -0.008643,
    -0.007651, -0.00671, -0.005822, -0.00499, -0.004216, -0.003501, -0.002849, -0.00226,
    -0.001737, -0.00128, -0.000891, -0.000572, -0.000322, -0.000143, -0.000036, 0.0]"

definition naca0012 :: "npfloat list list" where
  "naca0012 = [map Fin naca0012_X, map Fin naca0012_Z]"

subsection \<open>class Airfoil\<close>

text \<open>The attribute \<open>_coeff\<close> does not exist until \<open>express\<close> assigns it: \<open>coeff = None\<close>.
  \<open>params\<close> is an option because \<open>express\<close> tests it against \<open>None\<close>.\<close>

record Airfoil =
  params :: "Parameters option"
  coeff :: "Coefficients option"

definition Airfoil_init :: "real list option \<Rightarrow> error + Airfoil" where
  "Airfoil_init parsec_params =
     (case Parameters_init parsec_params of
        Inl e \<Rightarrow> Inl e
      | Inr p \<Rightarrow> Inr \<lparr> params = Some p, coeff = None \<rparr>)"

text \<open>The PARSEC polynomial at one station; \<open>a\<close> has six entries.\<close>

definition parsec_poly :: "real list \<Rightarrow> npfloat \<Rightarrow> npfloat" where
  "parsec_poly a X =
     np_add (np_add (np_add (np_add (np_add
       (np_mul (a ! 0) (np_power X 0.5))
       (np_mul (a ! 1) (np_power X 1.5)))
       (np_mul (a ! 2) (np_power X 2.5)))
       (np_mul (a ! 3) (np_power X 3.5)))
       (np_mul (a ! 4) (np_power X 4.5)))
       (np_mul (a ! 5) (np_power X 5.5))"

text \<open>The methods \<open>Z_up\<close> and \<open>Z_lo\<close> of \<open>Airfoil\<close>, on an array of stations.\<close>

definition Airfoil_Z_up :: "Airfoil \<Rightarrow> npfloat list \<Rightarrow> error + npfloat list" where
  "Airfoil_Z_up self X =
     (case coeff self of
        None \<Rightarrow> Inl AttributeError
      | Some c \<Rightarrow> Inr (map (parsec_poly (a_up c)) X))"

definition Airfoil_Z_lo :: "Airfoil \<Rightarrow> npfloat list \<Rightarrow> error + npfloat list" where
  "Airfoil_Z_lo self X =
     (case coeff self of
        None \<Rightarrow> Inl AttributeError
      | Some c \<Rightarrow> Inr (map (parsec_poly (a_lo c)) X))"

text \<open>Python slice bound: a negative \<open>n\<close> counts from the end, and the bound is clipped
  to the length.\<close>

definition slice_bound :: "int \<Rightarrow> nat \<Rightarrow> nat" where
  "slice_bound n len =
     (if n < 0 then nat (max 0 (int len + n)) else min (nat n) len)"

definition express :: "Airfoil \<Rightarrow> real list option \<Rightarrow> int \<Rightarrow> error + (Airfoil \<times> npfloat list list)" where
  "express self ps n_pts =
     (case (case params self of
              None \<Rightarrow> Inr self
            | Some old \<Rightarrow>
                (case Parameters_init ps of
                   Inl e \<Rightarrow> Inl e
                 | Inr p \<Rightarrow> Inr (self\<lparr> params := Some p \<rparr>))) of
        Inl e \<Rightarrow> Inl e
      | Inr self1 \<Rightarrow>
          (case params self1 of
             None \<Rightarrow> Inl AttributeError
           | Some p \<Rightarrow>
               (case Coefficients_init p of
                  Inl e \<Rightarrow> Inl e
                | Inr c \<Rightarrow>
                    (let self2 = self1\<lparr> coeff := Some c \<rparr>;
                         foil = naca0012;
                         k = slice_bound n_pts (length (foil ! 0))
                     in (case Airfoil_Z_up self2 (take k (foil ! 0)) of
                           Inl e \<Rightarrow> Inl e
                         | Inr zu \<Rightarrow>
                             (let foil1 = foil[1 := zu @ drop k (foil ! 1)]
                              in (case Airfoil_Z_lo self2 (drop k (foil1 ! 0)) of
                                    Inl e \<Rightarrow> Inl e
                                  | Inr zl \<Rightarrow>
                                      Inr (self2, foil1[1 := take k (foil1 ! 1) @ zl]))))))))"

subsection \<open>Predicates used in the statements\<close>


text \<open>An augmented system of \<open>n\<close> equations in \<open>n\<close> unknowns, and what it means for a
  vector to satisfy every equation of it.\<close>

definition system_ok :: "nat \<Rightarrow> (real list \<times> real) list \<Rightarrow> bool" where
  "system_ok n es = (length es = n \<and> list_all (\<lambda>e. length (fst e) = n) es)"

definition solves :: "(real list \<times> real) list \<Rightarrow> real list \<Rightarrow> bool" where
  "solves es ys = list_all (\<lambda>e. dot (fst e) ys = snd e) es"

subsection \<open>The surface system as specified\<close>

text \<open>The matrix as the specification words it: row 4 holds the first derivatives
  \<open>e * X^(e-1)\<close> and row 5 the second derivatives \<open>e * (e-1) * X^(e-2)\<close> of the basis
  functions \<open>X^e\<close>, \<open>e = 0.5, 1.5, ..., 5.5\<close>.\<close>

definition basis_exponents :: "real list" where
  "basis_exponents = [0.5, 1.5, 2.5, 3.5, 4.5, 5.5]"

definition spec_Amat :: "real \<Rightarrow> real list list" where
  "spec_Amat X =
     [map (\<lambda>e. 1) basis_exponents,
      map (\<lambda>e. X powr e) basis_exponents,
      basis_exponents,
      map (\<lambda>e. e * X powr (e - 1)) basis_exponents,
      map (\<lambda>e. e * (e - 1) * X powr (e - 2)) basis_exponents,
      [1, 0, 0, 0, 0, 0]]"

subsection \<open>A design point used in the examples\<close>

text \<open>A genome with every entry in \<open>[0, 1]\<close> whose crest locations are \<open>0.36\<close> on both
  surfaces, so that every fractional power in the linear systems is rational; the
  parameters, coefficients and freshly constructed airfoil it leads to.\<close>

definition example_genome :: "real list" where
  "example_genome = [163 / 463, 4 / 7, 40 / 287, 4 / 13, 163 / 463, 1 / 5, 3 / 4, 3 / 4, 1 / 2, 1 / 3]"

definition example_params :: Parameters where
  "example_params = \<lparr> r_le_up = 0.02, X_up = 0.36, Z_up = 0.06, Z_XX_up = -0.6,
            r_le_lo = 0.02, X_lo = 0.36, Z_lo = -0.06, Z_XX_lo = 0.6,
            Z_te = 0.000232, dZ_te = 0.002, alpha_te = 0, beta_te = 0 \<rparr>"

definition example_coeffs :: Coefficients where
  "example_coeffs = \<lparr> a_up = [1 / 5, - (568524263147 / 940953600000), 2804910522751 / 1764288000000,
                    - (18107156979791 / 7621724160000), 6695487721 / 4763577600,
                    - (5224784539 / 24389517312)],
            a_lo = [- (1 / 5), 284395224739 / 470476800000, - (1403482745687 / 882144000000),
                    9051214112167 / 3810862080000, - (3333082577 / 2381788800),
                    2561305043 / 12194758656] \<rparr>"

definition example_airfoil :: Airfoil where
  "example_airfoil = \<lparr> params = Some example_params, coeff = None \<rparr>"


section \<open>Properties of Parameters\<close>

lemmas Parameters_defs = Parameters_init_def param_vector_of_def broadcast_to_def genome_slots_def
  assign_at_def default_param_vector_def scaled_def r_min_def r_max_def Let_def

lemma list10:
  assumes "length (g::'a list) = 10"
  obtains g0 g1 g2 g3 g4 g5 g6 g7 g8 g9 where "g = [g0, g1, g2, g3, g4, g5, g6, g7, g8, g9]"
  using assms by (auto simp: numeral_eq_Suc length_Suc_conv)

lemma Parameters_init_10:
  "Parameters_init (Some [g0, g1, g2, g3, g4, g5, g6, g7, g8, g9]) =
     Inr \<lparr> r_le_up = g0 * (0.05 - 0.0037) + 0.0037,
           X_up = g1 * (0.5175 - 0.15) + 0.15,
           Z_up = g2 * (0.1588 - 0.044) + 0.044,
           Z_XX_up = g3 * (0.3 - (-1)) + (-1),
           r_le_lo = g4 * (0.05 - 0.0037) + 0.0037,
           X_lo = g5 * (0.6 - 0.3) + 0.3,
           Z_lo = g6 * (-0.04 - (-0.12)) + (-0.12),
           Z_XX_lo = - (g7 * (-0.3 - (-1.5)) + (-1.5)),
           Z_te = 0.5116 * (0.01 - (-0.01)) + (-0.01),
           dZ_te = 0 * (0.0026 - 0.002) + 0.002,
           alpha_te = radians (g8 * (10 - (-10)) + (-10)),
           beta_te = radians (g9 * (20 - (-10)) + (-10)) \<rparr>"
  by (simp add: Parameters_defs)









text \<open>
  C4 (as stated, refuted): with every genome entry at 0.5, \<open>alpha_te\<close> is not the radian
  value of the raw entry \<open>genome[8]\<close>.
\<close>

theorem C4_alpha_te_not_raw_radians:
  "\<not> isl (Parameters_init (Some [0.5, 0.5, 0.5, 0.5, 0.5, 0.5, 0.5, 0.5, 0.5, 0.5])) \<and>
   alpha_te (projr (Parameters_init (Some [0.5, 0.5, 0.5, 0.5, 0.5, 0.5, 0.5, 0.5, 0.5, 0.5])))
     \<noteq> radians ([0.5, 0.5, 0.5, 0.5, 0.5, 0.5, 0.5, 0.5, 0.5, 0.5] ! 8)"
  by (simp add: Parameters_init_10 radians_def)


text \<open>
  C4 (amended): for a 10-element genome, \<open>alpha_te\<close> and \<open>beta_te\<close> are the radian values of
  the scaled slot values \<open>genome[8] * (r_max[10] - r_min[10]) + r_min[10]\<close> and
  \<open>genome[9] * (r_max[11] - r_min[11]) + r_min[11]\<close>.
\<close>

theorem C4_angles_scaled_radians:
  assumes "length g = 10"
  shows "\<exists>P. Parameters_init (Some g) = Inr P \<and>
           alpha_te P = radians (g ! 8 * (r_max ! 10 - r_min ! 10) + r_min ! 10) \<and>
           beta_te P = radians (g ! 9 * (r_max ! 11 - r_min ! 11) + r_min ! 11)"
proof -
  from assms obtain g0 g1 g2 g3 g4 g5 g6 g7 g8 g9
    where g: "g = [g0, g1, g2, g3, g4, g5, g6, g7, g8, g9]" by (rule list10)
  show ?thesis unfolding g Parameters_init_10 by (simp add: r_min_def r_max_def)
qed

theorem C4_angles_scaled_radians_witness:
  "length [0, 0, 0, 0, 0, 0, 0, 0, 0.75, 1 :: real] = 10 \<and>
   alpha_te (projr (Parameters_init (Some [0, 0, 0, 0, 0, 0, 0, 0, 0.75, 1]))) = radians 5 \<and>
   beta_te (projr (Parameters_init (Some [0, 0, 0, 0, 0, 0, 0, 0, 0.75, 1]))) = radians 20"
  using C4_angles_scaled_radians[of "[0, 0, 0, 0, 0, 0, 0, 0, 0.75, 1]"] by (auto simp: r_min_def r_max_def)


text \<open>
  C6 (as stated, refuted): a genome of one element does not have 10 elements, yet the
  constructor accepts it: the single value is broadcast to all ten free slots.
\<close>

theorem C6_one_element_genome_accepted:
  "length [0.5::real] \<noteq> 10 \<and> \<not> isl (Parameters_init (Some [0.5])) \<and>
   X_up (projr (Parameters_init (Some [0.5]))) = 0.5 * (0.5175 - 0.15) + 0.15 \<and>
   X_lo (projr (Parameters_init (Some [0.5]))) = 0.5 * (0.6 - 0.3) + 0.3"
  by (simp add: Parameters_defs numeral_eq_Suc)

lemma Parameters_init_Inl:
  "(Parameters_init genome = Inl e) =
     (\<exists>g. genome = Some g \<and> length g \<noteq> 10 \<and> length g \<noteq> 1 \<and> e = ValueError)"
  by (auto simp: Parameters_init_def param_vector_of_def broadcast_to_def genome_slots_def Let_def
      split: option.splits sum.splits if_splits)


text \<open>
  C6 (amended): constructing Parameters from a genome raises (numpy's \<open>ValueError\<close> for the
  shape mismatch) exactly when the genome has neither 10 elements nor 1 element; a genome
  of 10 elements is accepted whatever its entries are.
\<close>

theorem C6_genome_length_check:
  "isl (Parameters_init (Some g)) = (length g \<noteq> 10 \<and> length g \<noteq> 1) \<and>
   (Parameters_init (Some g) = Inl ValueError) = (length g \<noteq> 10 \<and> length g \<noteq> 1)"
  using Parameters_init_Inl[of "Some g"] by (cases "Parameters_init (Some g)") auto

theorem C6_genome_length_check_witness:
  "Parameters_init (Some [0, 0, 0, 0, 0, 0, 0, 0, 0]) = Inl ValueError \<and>
   Parameters_init (Some []) = Inl ValueError \<and>
   \<not> isl (Parameters_init (Some [2, -1, 7, 0, 0, 0, 0, 0, 0, 3]))"
  using C6_genome_length_check[of "[0, 0, 0, 0, 0, 0, 0, 0, 0]"] C6_genome_length_check[of "[]"]
    C6_genome_length_check[of "[2, -1, 7, 0, 0, 0, 0, 0, 0, 3]"] by simp



section \<open>Properties of the surface system\<close>

lemma prepare_linsys_Amat_pos:
  assumes "0 < X"
  shows "prepare_linsys_Amat X = map (map Fin)
     [[1, 1, 1, 1, 1, 1],
      [X powr 0.5, X powr 1.5, X powr 2.5, X powr 3.5, X powr 4.5, X powr 5.5],
      [0.5, 1.5, 2.5, 3.5, 4.5, 5.5],
      [0.5 * X powr (-0.5), 1.5 * X powr 0.5, 2.5 * X powr 1.5,
       3.5 * X powr 2.5, 4.5 * X powr 3.5, 5.5 * X powr 4.5],
      [-0.25 * X powr (-1.5), 0.75 * X powr (-0.5), 3.75 * X powr 0.5,
       8.75 * X powr 1.5, 13.25 * X powr 2.5, 24.75 * X powr 3.5],
      [1, 0, 0, 0, 0, 0]]"
  using assms by (simp add: prepare_linsys_Amat_def Let_def)

lemma prepare_linsys_Amat_spec_except_4_4:
  assumes "0 < X"
  shows "prepare_linsys_Amat X =
     map (map Fin) ((spec_Amat X)[4 := (spec_Amat X ! 4)[4 := 13.25 * X powr 2.5]])"
  using assms by (simp add: prepare_linsys_Amat_def Let_def spec_Amat_def basis_exponents_def)

lemma sq_powr: "0 < (s::real) \<Longrightarrow> (s * s) powr e = s powr (2 * e)"
proof -
  assume s: "0 < s"
  have "(s * s) powr e = (s powr 2) powr e" using s by (simp add: power2_eq_square)
  also have "\<dots> = s powr (2 * e)" by (simp add: powr_powr)
  finally show ?thesis .
qed

lemma powr_example:
  "(9/25::real) powr (1/2) = 3/5" "(9/25::real) powr (3/2) = 27/125"
  "(9/25::real) powr (5/2) = 243/3125" "(9/25::real) powr (7/2) = 2187/78125"
  "(9/25::real) powr (9/2) = 19683/1953125" "(9/25::real) powr (11/2) = 177147/48828125"
  "(9/25::real) powr (-(1/2)) = 5/3" "(9/25::real) powr (-(3/2)) = 125/27"
  using sq_powr[of "3/5" "1/2"] sq_powr[of "3/5" "3/2"] sq_powr[of "3/5" "5/2"]
    sq_powr[of "3/5" "7/2"] sq_powr[of "3/5" "9/2"] sq_powr[of "3/5" "11/2"]
    sq_powr[of "3/5" "-1/2"] sq_powr[of "3/5" "-3/2"]
  by (simp_all add: powr_minus_divide power_divide)


text \<open>
  C1 (code differs from the claim): the claim gives the second-derivative row the entries
  \<open>(k+0.5) * (k-0.5) * X^(k-1.5)\<close>. At \<open>X = 0.36\<close> the entry for \<open>k = 4\<close> built by
  \<open>prepare_linsys_Amat\<close> is \<open>13.25 * X^2.5 = 1.03032\<close>, where the claimed value is
  \<open>4.5 * 3.5 * X^2.5 = 15.75 * X^2.5 = 1.22472\<close>. By \<open>prepare_linsys_Amat_spec_except_4_4\<close>
  this is the only entry that differs.
\<close>

theorem C1_second_derivative_entry:
  "prepare_linsys_Amat 0.36 ! 4 ! 4 = Fin 1.03032 \<and>
   spec_Amat 0.36 ! 4 ! 4 = (4 + 0.5) * (4 - 0.5) * 0.36 powr (4 - 1.5) \<and>
   spec_Amat 0.36 ! 4 ! 4 = 1.22472 \<and>
   prepare_linsys_Amat 0.36 ! 4 ! 4 \<noteq> Fin (spec_Amat 0.36 ! 4 ! 4)"
  by (simp add: prepare_linsys_Amat_def Let_def spec_Amat_def basis_exponents_def powr_example)

text \<open>
  C7 (as stated, refuted): at the crest location \<open>X = 0\<close> the builder raises nothing and
  returns a matrix without a single \<open>nan\<close>: zeros, \<open>inf\<close> and \<open>-inf\<close> beside the constants.
\<close>

theorem C7_zero_crest_no_error_no_nan:
  "prepare_linsys_Amat 0 =
     [[Fin 1, Fin 1, Fin 1, Fin 1, Fin 1, Fin 1],
      [Fin 0, Fin 0, Fin 0, Fin 0, Fin 0, Fin 0],
      [Fin 0.5, Fin 1.5, Fin 2.5, Fin 3.5, Fin 4.5, Fin 5.5],
      [PInf, Fin 0, Fin 0, Fin 0, Fin 0, Fin 0],
      [NInf, PInf, Fin 0, Fin 0, Fin 0, Fin 0],
      [Fin 1, Fin 0, Fin 0, Fin 0, Fin 0, Fin 0]] \<and>
   NaN \<notin> set (concat (prepare_linsys_Amat 0))"
  by (simp add: prepare_linsys_Amat_def Let_def)


text \<open>
  C7 (amended): for \<open>X \<le> 0\<close> the builder raises no error and returns a 6x6 matrix whose
  rows 1, 3 and 6 are the same constants as for \<open>X > 0\<close>. For \<open>X < 0\<close> every entry that
  holds a power of \<open>X\<close> (rows 2, 4 and 5) is \<open>nan\<close>; for \<open>X = 0\<close> row 2 is zero and rows 4
  and 5 start with \<open>inf\<close>, and \<open>-inf, inf\<close>, followed by zeros.
\<close>

theorem C7_nonpositive_crest_matrix:
  assumes "X \<le> 0"
  shows "prepare_linsys_Amat X =
     (if X < 0 then
        [[Fin 1, Fin 1, Fin 1, Fin 1, Fin 1, Fin 1],
         [NaN, NaN, NaN, NaN, NaN, NaN],
         [Fin 0.5, Fin 1.5, Fin 2.5, Fin 3.5, Fin 4.5, Fin 5.5],
         [NaN, NaN, NaN, NaN, NaN, NaN],
         [NaN, NaN, NaN, NaN, NaN, NaN],
         [Fin 1, Fin 0, Fin 0, Fin 0, Fin 0, Fin 0]]
      else
        [[Fin 1, Fin 1, Fin 1, Fin 1, Fin 1, Fin 1],
         [Fin 0, Fin 0, Fin 0, Fin 0, Fin 0, Fin 0],
         [Fin 0.5, Fin 1.5, Fin 2.5, Fin 3.5, Fin 4.5, Fin 5.5],
         [PInf, Fin 0, Fin 0, Fin 0, Fin 0, Fin 0],
         [NInf, PInf, Fin 0, Fin 0, Fin 0, Fin 0],
         [Fin 1, Fin 0, Fin 0, Fin 0, Fin 0, Fin 0]])"
  using assms by (simp add: prepare_linsys_Amat_def Let_def is_integer_def)

theorem C7_nonpositive_crest_matrix_witness:
  "(-1::real) \<le> 0 \<and> prepare_linsys_Amat (-1) ! 1 = [NaN, NaN, NaN, NaN, NaN, NaN] \<and>
   prepare_linsys_Amat (-1) ! 0 = [Fin 1, Fin 1, Fin 1, Fin 1, Fin 1, Fin 1] \<and>
   (0::real) \<le> 0 \<and> prepare_linsys_Amat 0 ! 3 = [PInf, Fin 0, Fin 0, Fin 0, Fin 0, Fin 0]"
  using C7_nonpositive_crest_matrix[of "-1"] C7_nonpositive_crest_matrix[of 0] by simp


section \<open>The linear solver\<close>

lemma dot_Nil [simp]: "dot [] ys = 0" "dot rs [] = 0"
  by (simp_all add: dot_def)

lemma dot_Cons [simp]: "dot (r # rs) (y # ys) = r * y + dot rs ys"
  by (simp add: dot_def)

lemma dot_eliminate:
  "length cs = length as \<Longrightarrow>
     dot (map2 (\<lambda>u v. u - m * v) cs as) ys = dot cs ys - m * dot as ys"
proof (induction cs as arbitrary: ys rule: list_induct2)
  case Nil
  then show ?case by simp
next
  case (Cons c cs a as)
  then show ?case by (cases ys) (simp_all add: algebra_simps)
qed

lemma pivot_Some:
  assumes "pivot es = Some ((a, as, b), rest)"
  shows "a \<noteq> 0 \<and> set es = insert (a # as, b) (set rest) \<and> length es = Suc (length rest)"
  using assms
proof (induction es arbitrary: rest rule: pivot.induct)
  case 1
  then show ?case by simp
next
  case (2 b es)
  then show ?case by simp
next
  case (3 a' as' b' es)
  then show ?case by (auto split: if_splits option.splits)
qed

lemma eliminate_ok:
  assumes "system_ok (Suc n) es" "pivot es = Some ((a, as, b), rest)"
  shows "system_ok n (map (eliminate (a, as, b)) rest)"
proof -
  from pivot_Some[OF assms(2)] have s: "set es = insert (a # as, b) (set rest)"
    and l: "length es = Suc (length rest)" by auto
  from assms(1) have len: "\<And>r d. (r, d) \<in> set es \<Longrightarrow> length r = Suc n"
    by (auto simp: system_ok_def list_all_iff)
  have "length as = n" using len[of "a # as" b] s by simp
  moreover have "\<And>r d. (r, d) \<in> set rest \<Longrightarrow> length (tl r) = n" using len s by fastforce
  ultimately show ?thesis using assms(1) l
    by (auto simp: system_ok_def list_all_iff eliminate_def Let_def)
qed

lemma solves_step:
  assumes ok: "system_ok (Suc n) es" and pv: "pivot es = Some ((a, as, b), rest)"
  shows "solves es (z # zs) =
           (a * z + dot as zs = b \<and> solves (map (eliminate (a, as, b)) rest) zs)"
proof -
  from pivot_Some[OF pv] have a: "a \<noteq> 0" and s: "set es = insert (a # as, b) (set rest)" by auto
  from ok have len: "\<And>r d. (r, d) \<in> set es \<Longrightarrow> length r = Suc n"
    by (auto simp: system_ok_def list_all_iff)
  have las: "length as = n" using len[of "a # as" b] s by simp
  have row: "(dot r (z # zs) = d) =
             (dot (fst (eliminate (a, as, b) (r, d))) zs = snd (eliminate (a, as, b) (r, d)))"
    if piv: "a * z + dot as zs = b" and mem: "(r, d) \<in> set rest" for r d
  proof -
    from len[of r d] mem s obtain c cs where r: "r = c # cs" and lcs: "length cs = n"
      by (cases r) auto
    have "dot (map2 (\<lambda>u v. u - c / a * v) cs as) zs = dot cs zs - c / a * dot as zs"
      by (rule dot_eliminate) (simp add: lcs las)
    moreover have "c / a * b = c * z + c / a * dot as zs"
      using a piv[symmetric] by (simp add: field_simps)
    ultimately show ?thesis
      by (simp add: r eliminate_def Let_def algebra_simps)
  qed
  show ?thesis
  proof (cases "a * z + dot as zs = b")
    case True
    then show ?thesis using row[OF True] s
      by (auto simp: solves_def list_all_iff)
  next
    case False
    then show ?thesis using s by (auto simp: solves_def list_all_iff)
  qed
qed



text \<open>No pivot: every leading entry is zero (or the system is empty).\<close>

lemma pivot_None:
  "pivot es = None \<Longrightarrow> list_all (\<lambda>e. length (fst e) = Suc n) es \<Longrightarrow> list_all (\<lambda>e. hd (fst e) = 0) es"
proof (induction es rule: pivot.induct)
  case 1
  then show ?case by simp
next
  case (2 b es)
  then show ?case by simp
next
  case (3 a as b es)
  then show ?case by (auto split: if_splits option.splits)
qed

lemma gauss_None:
  "system_ok n es \<Longrightarrow> gauss n es = None \<Longrightarrow>
     \<not> (\<exists>ys. length ys = n \<and> solves es ys \<and> (\<forall>zs. length zs = n \<and> solves es zs \<longrightarrow> zs = ys))"
proof (induction n arbitrary: es)
  case 0
  then show ?case by simp
next
  case (Suc n)
  show ?case
  proof (cases "pivot es")
    case None
    from Suc.prems(1) have lens: "list_all (\<lambda>e. length (fst e) = Suc n) es"
      by (simp add: system_ok_def)
    from pivot_None[OF None lens] have z: "list_all (\<lambda>e. hd (fst e) = 0) es" .
    have shift: "solves es (y # ys) \<Longrightarrow> solves es ((y + 1) # ys)" for y ys
    proof -
      assume s: "solves es (y # ys)"
      have "dot r ((y + 1) # ys) = dot r (y # ys)" if "(r, d) \<in> set es" for r d
      proof -
        from that lens z obtain cs where "r = 0 # cs"
          by (cases r) (auto simp: list_all_iff)
        then show ?thesis by simp
      qed
      with s show ?thesis by (auto simp: solves_def list_all_iff)
    qed
    show ?thesis
    proof
      assume "\<exists>ys. length ys = Suc n \<and> solves es ys \<and> (\<forall>zs. length zs = Suc n \<and> solves es zs \<longrightarrow> zs = ys)"
      then obtain ys where l: "length ys = Suc n" and s: "solves es ys"
        and u: "\<forall>zs. length zs = Suc n \<and> solves es zs \<longrightarrow> zs = ys" by blast
      from l obtain y ys' where ys: "ys = y # ys'" and l': "length ys' = n" by (cases ys) auto
      from shift s ys have "solves es ((y + 1) # ys')" by simp
      moreover have "length ((y + 1) # ys') = Suc n" using l' by simp
      ultimately have "(y + 1) # ys' = ys" using u by blast
      then show False by (simp add: ys)
    qed
  next
    case (Some pr)
    then obtain a as b rest where pv: "pivot es = Some ((a, as, b), rest)"
      by (cases pr) auto
    from pivot_Some[OF pv] have a: "a \<noteq> 0" by simp
    from Suc.prems(2) pv have g: "gauss n (map (eliminate (a, as, b)) rest) = None"
      by (auto split: option.splits)
    note IH = Suc.IH[OF eliminate_ok[OF Suc.prems(1) pv] g]
    note step = solves_step[OF Suc.prems(1) pv]
    show ?thesis
    proof
      assume "\<exists>ys. length ys = Suc n \<and> solves es ys \<and> (\<forall>zs. length zs = Suc n \<and> solves es zs \<longrightarrow> zs = ys)"
      then obtain ys where l: "length ys = Suc n" and s: "solves es ys"
        and u: "\<forall>zs. length zs = Suc n \<and> solves es zs \<longrightarrow> zs = ys" by blast
      from l obtain y ys' where ys: "ys = y # ys'" and l': "length ys' = n" by (cases ys) auto
      from s have s': "solves (map (eliminate (a, as, b)) rest) ys'" by (simp add: ys step)
      have "zs = ys'" if lz: "length zs = n" and sz: "solves (map (eliminate (a, as, b)) rest) zs" for zs
      proof -
        have "solves es ((b - dot as zs) / a # zs)" using a sz by (simp add: step)
        with u lz have "(b - dot as zs) / a # zs = ys" by simp
        then show ?thesis by (simp add: ys)
      qed
      with IH l' s' show False by blast
    qed
  qed
qed

lemma those_length: "those xs = Some ys \<Longrightarrow> length ys = length xs"
  by (induction xs arbitrary: ys) (auto split: option.splits)

lemma finite_matrix_shape:
  "finite_matrix A = Some M \<Longrightarrow> map length M = map length A"
  unfolding finite_matrix_def
proof (induction A arbitrary: M)
  case Nil
  then show ?case by simp
next
  case (Cons r A)
  then show ?case by (auto split: option.splits dest: those_length)
qed

lemma solves_zip:
  "length M = length b \<Longrightarrow> solves (zip M b) y = (mat_vec M y = b)"
  by (induction M b rule: list_induct2) (auto simp: solves_def mat_vec_def)

lemma system_ok_zip:
  assumes "square A" "length b = length A" "finite_matrix A = Some M"
  shows "system_ok (length M) (zip M b)"
proof -
  from finite_matrix_shape[OF assms(3)] have sh: "map length M = map length A" .
  then have l: "length M = length A" using map_eq_imp_length_eq by blast
  have "\<forall>r\<in>set M. length r = length M"
  proof
    fix r assume "r \<in> set M"
    then have "length r \<in> set (map length A)" using sh by (metis image_eqI set_map)
    then show "length r = length M" using assms(1) l by (auto simp: square_def list_all_iff)
  qed
  then show ?thesis using l assms(2)
    by (auto simp: system_ok_def list_all_iff dest: set_zip_leftD)
qed


lemma solve_LinAlgError:
  assumes "solve A b = Inl LinAlgError" "square A" "length b = length A" "finite_matrix A = Some M"
  shows "\<not> (\<exists>y. length y = length A \<and> mat_vec M y = b \<and>
             (\<forall>z. length z = length A \<and> mat_vec M z = b \<longrightarrow> z = y))"
proof -
  from assms have g: "gauss (length M) (zip M b) = None"
    by (auto simp: solve_def split: if_splits option.splits)
  from finite_matrix_shape[OF assms(4)] have l: "length M = length A" using map_eq_imp_length_eq by blast
  have lm: "length M = length b" using l assms(3) by simp
  from gauss_None[OF system_ok_zip[OF assms(2,3,4)] g] show ?thesis
    by (simp add: solves_zip[OF lm] l)
qed

lemma those_map_Some:
  "(those (map f xs) = Some ys) = list_all2 (\<lambda>x y. f x = Some y) xs ys"
proof (induction xs arbitrary: ys)
  case Nil
  then show ?case by auto
next
  case (Cons x xs)
  then show ?case by (cases ys) (auto split: option.splits)
qed

lemma the_fin_Some: "(the_fin v = Some x) = (v = Fin x)"
  by (cases v) auto

lemma those_the_fin: "(those (map the_fin r) = Some m) = (r = map Fin m)"
proof -
  have "(r = map Fin m) = list_all2 (=) r (map Fin m)" by (simp add: list_all2_eq)
  also have "\<dots> = list_all2 (\<lambda>v x. v = Fin x) r m" by (simp add: list_all2_map2)
  finally show ?thesis by (simp add: those_map_Some the_fin_Some)
qed

lemma finite_matrix_Some: "(finite_matrix A = Some M) = (A = map (map Fin) M)"
proof -
  have "(A = map (map Fin) M) = list_all2 (=) A (map (map Fin) M)" by (simp add: list_all2_eq)
  also have "\<dots> = list_all2 (\<lambda>r m. r = map Fin m) A M" by (simp add: list_all2_map2)
  finally show ?thesis
    by (simp add: finite_matrix_def those_map_Some[where f = "\<lambda>r. those (map the_fin r)"] those_the_fin)
qed

lemma square_Amat: "square (prepare_linsys_Amat X)" "length (prepare_linsys_Amat X) = 6"
  by (simp_all add: square_def prepare_linsys_Amat_def Let_def)

lemma sqrt_example: "sqrt (1/25) = 1/5"
  by (simp add: real_sqrt_divide)

lemma finite_Amat_example:
  "finite_matrix (prepare_linsys_Amat (9/25)) = Some
     [[1, 1, 1, 1, 1, 1],
      [3 / 5, 27 / 125, 243 / 3125, 2187 / 78125, 19683 / 1953125, 177147 / 48828125],
      [1 / 2, 3 / 2, 5 / 2, 7 / 2, 9 / 2, 11 / 2],
      [5 / 6, 9 / 10, 27 / 50, 1701 / 6250, 19683 / 156250, 216513 / 3906250],
      [- (125 / 108), 5 / 4, 9 / 4, 189 / 100, 12879 / 12500, 216513 / 312500],
      [1, 0, 0, 0, 0, 0]]"
  by (simp add: prepare_linsys_Amat_def Let_def powr_example finite_matrix_def)

lemma solve_example:
  "solve (prepare_linsys_Amat (9/25)) [b1, b2, b3, b4, b5, b6] \<noteq> Inl e"
  apply (simp add: solve_def square_Amat finite_Amat_example)
  apply (simp add: numeral_eq_Suc eliminate_def)
  done

lemma Coefficients_init_example: "Coefficients_init example_params = Inr example_coeffs"
proof -
  have u: "calc_a_up example_params = Inr (a_up example_coeffs)"
    apply (simp add: calc_a_up_def example_params_def example_coeffs_def math_sqrt_def Bvec_up_def solve_def square_Amat sqrt_example finite_Amat_example)
    apply (simp add: numeral_eq_Suc eliminate_def)
    done
  have l: "calc_a_lo example_params = Inr (a_lo example_coeffs)"
    apply (simp add: calc_a_lo_def example_params_def example_coeffs_def math_sqrt_def Bvec_lo_def solve_def square_Amat sqrt_example finite_Amat_example)
    apply (simp add: numeral_eq_Suc eliminate_def)
    done
  show ?thesis by (simp add: Coefficients_init_def u l)
qed




text \<open>When the two systems have unique solutions and the radicands are not negative, the
  coefficients are computed.\<close>

lemma solve_total:
  assumes "square A" "length b = length A" "A = map (map Fin) M"
    and "\<exists>y. length y = length A \<and> mat_vec M y = b \<and>
             (\<forall>z. length z = length A \<and> mat_vec M z = b \<longrightarrow> z = y)"
  shows "\<exists>y. solve A b = Inr y"
proof -
  from assms(3) have fm: "finite_matrix A = Some M" by (simp add: finite_matrix_Some)
  show ?thesis
  proof (cases "gauss (length M) (zip M b)")
    case None
    then have "solve A b = Inl LinAlgError" using assms(1,2) fm by (simp add: solve_def)
    from solve_LinAlgError[OF this assms(1,2) fm] assms(4) show ?thesis by blast
  next
    case (Some y)
    then show ?thesis using assms(1,2) fm by (simp add: solve_def)
  qed
qed

lemma Coefficients_init_returns:
  assumes "0 \<le> r_le_up p" "0 \<le> r_le_lo p"
    and "prepare_linsys_Amat (X_up p) = map (map Fin) Mup"
    and "prepare_linsys_Amat (X_lo p) = map (map Fin) Mlo"
    and "\<exists>y. length y = 6 \<and> mat_vec Mup y = Bvec_up p (sqrt (2 * r_le_up p)) \<and>
           (\<forall>z. length z = 6 \<and> mat_vec Mup z = Bvec_up p (sqrt (2 * r_le_up p)) \<longrightarrow> z = y)"
    and "\<exists>y. length y = 6 \<and> mat_vec Mlo y = Bvec_lo p (sqrt (2 * r_le_lo p)) \<and>
           (\<forall>z. length z = 6 \<and> mat_vec Mlo z = Bvec_lo p (sqrt (2 * r_le_lo p)) \<longrightarrow> z = y)"
  shows "\<exists>c. Coefficients_init p = Inr c"
proof -
  have lu: "length (Bvec_up p (sqrt (2 * r_le_up p))) = length (prepare_linsys_Amat (X_up p))"
    and ll: "length (Bvec_lo p (sqrt (2 * r_le_lo p))) = length (prepare_linsys_Amat (X_lo p))"
    by (simp_all add: Bvec_up_def Bvec_lo_def square_Amat)
  from solve_total[OF square_Amat(1) lu assms(3)] assms(5)
  obtain u where u: "solve (prepare_linsys_Amat (X_up p)) (Bvec_up p (sqrt (2 * r_le_up p))) = Inr u"
    by (auto simp: square_Amat)
  from solve_total[OF square_Amat(1) ll assms(4)] assms(6)
  obtain l where l: "solve (prepare_linsys_Amat (X_lo p)) (Bvec_lo p (sqrt (2 * r_le_lo p))) = Inr l"
    by (auto simp: square_Amat)
  show ?thesis using assms(1,2) u l
    by (simp add: Coefficients_init_def calc_a_up_def calc_a_lo_def math_sqrt_def Let_def)
qed




section \<open>Properties of Airfoil\<close>

lemma Parameters_init_example: "Parameters_init (Some example_genome) = Inr example_params"
  by (simp add: example_genome_def Parameters_init_10 example_params_def radians_def)

lemma Airfoil_init_example: "Airfoil_init (Some example_genome) = Inr example_airfoil"
  by (simp add: Airfoil_init_def Parameters_init_example example_airfoil_def)

lemma length_naca0012_X: "length naca0012_X = 200"
  by (simp add: naca0012_X_def)

lemma length_naca0012_Z: "length naca0012_Z = 200"
  by (simp add: naca0012_Z_def)

lemma naca0012_rows [simp]:
  "naca0012 ! 0 = map Fin naca0012_X" "naca0012 ! 1 = map Fin naca0012_Z" "length naca0012 = 2"
  by (simp_all add: naca0012_def)

lemma slice_bound_le: "slice_bound n len \<le> len"
  unfolding slice_bound_def by (cases "n < 0") auto


text \<open>What a successful call of \<open>express\<close> returns.\<close>

lemma express_Inr:
  assumes "express self ps n = Inr (self', foil)"
  shows "\<exists>p c. params self' = Some p \<and> coeff self' = Some c \<and> Coefficients_init p = Inr c \<and>
           (params self \<noteq> None \<longrightarrow> Parameters_init ps = Inr p) \<and>
           foil = [map Fin naca0012_X,
                   map (parsec_poly (a_up c)) (take (slice_bound n 200) (map Fin naca0012_X)) @
                   map (parsec_poly (a_lo c)) (drop (slice_bound n 200) (map Fin naca0012_X))]"
proof -
  have k: "min 200 (slice_bound n 200) = slice_bound n 200"
    using slice_bound_le[of n 200] by simp
  have upd: "naca0012[Suc 0 := zs] = [map Fin naca0012_X, zs]" for zs
    by (simp add: naca0012_def)
  from assms show ?thesis
    by (auto simp: express_def Let_def Airfoil_Z_up_def Airfoil_Z_lo_def length_naca0012_X
        length_naca0012_Z upd k
        split: option.splits sum.splits)
qed

lemma express_example:
  assumes "params self \<noteq> None"
  shows "express self (Some example_genome) n =
           Inr (\<lparr> params = Some example_params, coeff = Some example_coeffs \<rparr>,
                [map Fin naca0012_X,
                 map (parsec_poly (a_up example_coeffs)) (take (slice_bound n 200) (map Fin naca0012_X)) @
                 map (parsec_poly (a_lo example_coeffs)) (drop (slice_bound n 200) (map Fin naca0012_X))])"
proof -
  have k: "min 200 (slice_bound n 200) = slice_bound n 200"
    using slice_bound_le[of n 200] by simp
  have upd: "naca0012[Suc 0 := zs] = [map Fin naca0012_X, zs]" for zs
    by (simp add: naca0012_def)
  from assms obtain old where "params self = Some old" by auto
  then show ?thesis
    by (cases self) (simp add: express_def Let_def Airfoil_Z_up_def Airfoil_Z_lo_def length_naca0012_X
        length_naca0012_Z upd k Parameters_init_example Coefficients_init_example)
qed










lemma Airfoil_init_Inr: "Airfoil_init g = Inr a \<Longrightarrow> params a \<noteq> None \<and> coeff a = None"
  by (auto simp: Airfoil_init_def split: sum.splits)






text \<open>
  C10: on a freshly constructed airfoil \<open>Z_up\<close> and \<open>Z_lo\<close> fail with \<open>AttributeError\<close>
  (\<open>_coeff\<close> is not assigned by the constructor); on the airfoil left by any call of
  \<open>express\<close> that returns, both are defined.
\<close>

theorem C10_Z_before_express_fails:
  assumes "Airfoil_init g = Inr a"
  shows "Airfoil_Z_up a X = Inl AttributeError \<and> Airfoil_Z_lo a X = Inl AttributeError \<and>
         (\<forall>ps n self' foil. express a ps n = Inr (self', foil) \<longrightarrow>
            \<not> isl (Airfoil_Z_up self' X) \<and> \<not> isl (Airfoil_Z_lo self' X))"
proof -
  from Airfoil_init_Inr[OF assms] have c: "coeff a = None" by simp
  have "\<not> isl (Airfoil_Z_up self' X) \<and> \<not> isl (Airfoil_Z_lo self' X)"
    if "express a ps n = Inr (self', foil)" for ps n self' foil
    using express_Inr[OF that] by (auto simp: Airfoil_Z_up_def Airfoil_Z_lo_def)
  with c show ?thesis by (simp add: Airfoil_Z_up_def Airfoil_Z_lo_def)
qed

theorem C10_Z_before_express_fails_witness:
  "Airfoil_init (Some example_genome) = Inr example_airfoil \<and>
   Airfoil_Z_up example_airfoil [Fin 0.5] = Inl AttributeError \<and>
   Airfoil_Z_lo example_airfoil [Fin 0.5] = Inl AttributeError \<and>
   \<not> isl (express example_airfoil (Some example_genome) 100) \<and>
   \<not> isl (Airfoil_Z_up (fst (projr (express example_airfoil (Some example_genome) 100))) [Fin 0.5])"
proof -
  have e: "express example_airfoil (Some example_genome) 100 =
           Inr (\<lparr> params = Some example_params, coeff = Some example_coeffs \<rparr>,
                [map Fin naca0012_X,
                 map (parsec_poly (a_up example_coeffs)) (take (slice_bound 100 200) (map Fin naca0012_X)) @
                 map (parsec_poly (a_lo example_coeffs)) (drop (slice_bound 100 200) (map Fin naca0012_X))])"
    by (rule express_example) (simp add: example_airfoil_def)
  note c = C10_Z_before_express_fails[OF Airfoil_init_example, of "[Fin 0.5]"]
  from c have 1: "Airfoil_Z_up example_airfoil [Fin 0.5] = Inl AttributeError"
    and 2: "Airfoil_Z_lo example_airfoil [Fin 0.5] = Inl AttributeError" by simp_all
  from c e have 3: "\<not> isl (Airfoil_Z_up \<lparr> params = Some example_params, coeff = Some example_coeffs \<rparr> [Fin 0.5])"
    by blast
  show ?thesis using 1 2 3 Airfoil_init_example by (simp add: e)
qed

end
